theory Spec2Isabelle
  imports Main "HOL-Library.Sublist"
begin

section \<open>Data of the chat platform, as the bug form uses it\<close>

text \<open>
  Byte slices and Go strings are \<open>string\<close>; a nil byte slice or a nil error is \<open>None\<close>.
  The enumerations of the chat library are datatypes holding the constants the sources name.
\<close>

type_synonym bytes = string

datatype error =
    MarshalingFailure string
  | RoutingMiss string
  | FilingFailure string
  | DuplicateFlow string

datatype ViewType = VTModal
datatype TextType = PlainTextType
datatype MessageBlockType = MBTSection | MBTInput | MBTDivider
datatype ElementType = METPlainTextInput | OptTypeStatic
datatype ViewResponseAction = RAErrors | RAUpdate | RAClear | RAPush
datatype InteractionType =
    InteractionTypeViewSubmission
  | InteractionTypeViewClosed
  | InteractionTypeBlockActions

datatype TextBlockObject = TextBlockObject (tbo_Type: TextType) (tbo_Text: string)

datatype OptionBlockObject = OptionBlockObject (opt_Value: string) (opt_Text: "TextBlockObject option")

datatype BlockElement =
    PlainTextInputBlockElement (el_Type: ElementType) (el_Multiline: bool)
  | SelectBlockElement (el_Type: ElementType) (el_Placeholder: TextBlockObject)
      (el_Options: "OptionBlockObject list")

datatype Block =
    SectionBlock MessageBlockType TextBlockObject
  | InputBlock MessageBlockType string TextBlockObject BlockElement bool
  | DividerBlock MessageBlockType

record ModalViewRequest =
  mv_Type :: ViewType
  mv_PrivateMetadata :: string
  mv_Title :: TextBlockObject
  mv_Close :: TextBlockObject
  mv_Submit :: TextBlockObject
  mv_Blocks :: "Block list"

text \<open>
  A submitted action of a block: the free text of a plain-text input, or the option chosen in a
  select. \<open>act_Type\<close> is the element type the action comes from.
\<close>

record BlockAction =
  act_Type :: ElementType
  act_Value :: string
  act_SelectedOption :: OptionBlockObject

text \<open>
  \<open>View.State.Values\<close> is a map from block identifier to a map from action identifier to the
  action. Both are association lists here, so that the \<open>range\<close> loops of the source run over
  them; a Go map corresponds to a list with distinct keys.
\<close>

type_synonym StateValues = "(string \<times> (string \<times> BlockAction) list) list"

record View =
  view_ID :: string
  view_PrivateMetadata :: string
  view_State_Values :: StateValues

record InteractionCallback =
  cb_Type :: InteractionType
  cb_User_ID :: string
  cb_View :: View

record ViewSubmissionResponse =
  vsr_ResponseAction :: ViewResponseAction
  vsr_View :: "ModalViewRequest option"
  vsr_Errors :: "(string \<times> string) list"

text \<open>
  \<open>Values[blockId]\<close>: indexing a Go map at an absent key gives the nil map, over which the
  \<open>range\<close> loop does not run at all.
\<close>

definition actions_of :: "StateValues \<Rightarrow> string \<Rightarrow> BlockAction list" where
  "actions_of vs blockId = (case map_of vs blockId of None \<Rightarrow> [] | Some m \<Rightarrow> map snd m)"

section \<open>The world the handlers act on\<close>

text \<open>
  Handlers log through the logger they are given, file issues through the tracker client and
  replace the open modal through the view updater. The world records each of these effects in
  order, the way the test doubles of the repository record the calls they receive.
\<close>

datatype LogLevel = DebugLevel | InfoLevel | ErrorLevel

type_synonym IssueType = string

record RenderedIssue =
  ri_issueType :: IssueType
  ri_title :: string
  ri_body :: string

datatype ViewContent = Confirmation string | FailureNotice error

text \<open>
  The parsed form of a template of the standard library's \<open>text/template\<close>, for the constructs
  the bug form uses: literal text, a field of the data (\<open>{{ .name }}\<close>) and the branch
  \<open>{{ if eq .name "constant" }} ... {{ else }} ... {{ end }}\<close>; and the parameters of an issue, with
  the fields the sources set.
\<close>

datatype Node =
    TextNode string
  | FieldNode string
  | IfEqNode string string "Node list" "Node list"

record JiraIssueParameters =
  jp_Id :: string
  jp_IssueType :: IssueType
  jp_Template :: "Node list"
  jp_Fields :: "string list"

text \<open>
  Modelled from the spec: the pending filing tasks and the record of filed submissions, which
  the issue filer outside the sources keeps.
  Filing does not run inside the handler: the handler answers at once and leaves a task that
  files later (the repository's test helper waits for the view updater after \<open>Handle\<close> has
  returned, and section 5 of the specification makes filing an independently scheduled unit of
  work). A pending task is the data it works on. The identity of a submission is its flow
  identifier, its submitting user and its view instance (section 5); \<open>filed\<close> remembers, per
  identity, how the one request to the tracker client ended.
\<close>

datatype FilingTask = FilingTask JiraIssueParameters InteractionCallback

type_synonym SubmissionKey = "string \<times> string \<times> string"

record World =
  logs :: "(LogLevel \<times> string \<times> error option) list"
  tracker_calls :: "RenderedIssue list"
  view_updates :: "(string \<times> ViewContent) list"
  filed :: "(SubmissionKey \<times> (error + string)) list"
  tasks :: "FilingTask list"

definition log_to :: "LogLevel \<Rightarrow> string \<Rightarrow> error option \<Rightarrow> World \<Rightarrow> World" where
  "log_to lvl msg err w = w\<lparr>logs := logs w @ [(lvl, msg, err)]\<rparr>"

section \<open>Partial handlers and their composition\<close>

text \<open>
  A partial handler reports \<open>(handled, response, err)\<close>, as the Go signature
  \<open>(bool, []byte, error)\<close> does.
\<close>

type_synonym PartialHandlerResult = "bool \<times> bytes option \<times> error option"

record ('i, 'w) PartialHandler =
  ph_Identifier :: string
  ph_Handle :: "'i \<Rightarrow> 'w \<Rightarrow> PartialHandlerResult \<times> 'w"

definition PartialHandlerFunc ::
  "string \<Rightarrow> ('i \<Rightarrow> 'w \<Rightarrow> PartialHandlerResult \<times> 'w) \<Rightarrow> ('i, 'w) PartialHandler" where
  "PartialHandlerFunc identifier handle = \<lparr>ph_Identifier = identifier, ph_Handle = handle\<rparr>"

text \<open>
  Modelled from the spec: \<open>MultiHandler\<close> of the \<open>interactions\<close> and \<open>events\<close> packages is
  not among the sources; only its callers \<open>Register\<close> and \<open>ForEvents\<close> are. Section 4.1 of the
  specification: the composed handler tries each handler in order and returns the result of the
  first one that reports \<open>handled=true\<close>; if none claims the input it reports \<open>handled=false\<close>
  with no error.
\<close>

fun MultiHandler ::
  "('i, 'w) PartialHandler list \<Rightarrow> 'i \<Rightarrow> 'w \<Rightarrow> PartialHandlerResult \<times> 'w" where
  "MultiHandler [] x w = ((False, None, None), w)"
| "MultiHandler (h # hs) x w =
     (case ph_Handle h x w of
        (r, w') \<Rightarrow> if fst r then (r, w') else MultiHandler hs x w')"

text \<open>
  The world reached when every handler of a sequence has been tried and has declined, if that
  is what happens; used to say where in a chain the first claiming handler stands.
\<close>

fun all_decline :: "('i, 'w) PartialHandler list \<Rightarrow> 'i \<Rightarrow> 'w \<Rightarrow> 'w option" where
  "all_decline [] x w = Some w"
| "all_decline (h # hs) x w =
     (case ph_Handle h x w of
        (r, w') \<Rightarrow> if fst r then None else all_decline hs x w')"

section \<open>The bug form\<close>

definition Identifier :: string where
  "Identifier = ''bug''"

definition blockIdCategory :: string where "blockIdCategory = ''category''"
definition blockIdOptional :: string where "blockIdOptional = ''optional''"
definition blockIdSymptom :: string where "blockIdSymptom = ''symptom''"
definition blockIdExpected :: string where "blockIdExpected = ''expected''"
definition blockIdImpact :: string where "blockIdImpact = ''impact''"
definition blockIdReproduction :: string where "blockIdReproduction = ''reproduction''"

definition componentAI :: string where "componentAI = ''Assisted Installer''"
definition componentUI :: string where "componentUI = ''MGMT UI''"
definition componentSNO :: string where "componentSNO = ''SNO''"
definition componentOther :: string where "componentOther = ''Other''"

text \<open>
  Modelled from the spec: the constant \<open>modals.BlockIdTitle\<close> is declared outside the sources;
  the specification speaks of "a title field".
\<close>

definition BlockIdTitle :: string where "BlockIdTitle = ''title''"

definition plain :: "string \<Rightarrow> TextBlockObject" where
  "plain s = TextBlockObject PlainTextType s"

definition component_option :: "string \<Rightarrow> OptionBlockObject" where
  "component_option c = OptionBlockObject c (Some (plain c))"

definition View :: ModalViewRequest where
  "View = \<lparr>
     mv_Type = VTModal,
     mv_PrivateMetadata = Identifier,
     mv_Title = plain ''File a Bug'',
     mv_Close = plain ''Cancel'',
     mv_Submit = plain ''Submit'',
     mv_Blocks = [
       SectionBlock MBTSection
         (plain ''Use this form to report a bug in the test platform or infrastructure.''),
       InputBlock MBTInput BlockIdTitle (plain ''Provide a title for this bug:'')
         (PlainTextInputBlockElement METPlainTextInput False) False,
       InputBlock MBTInput blockIdCategory (plain ''What component is affected?'')
         (SelectBlockElement OptTypeStatic (plain ''Select a category...'')
            [component_option componentAI, component_option componentUI,
             component_option componentSNO, component_option componentOther]) False,
       InputBlock MBTInput blockIdOptional
         (plain ''If other, what best describes the bugged component?'')
         (PlainTextInputBlockElement METPlainTextInput False) True,
       DividerBlock MBTDivider,
       InputBlock MBTInput blockIdSymptom (plain ''What incorrect behavior did you notice?'')
         (PlainTextInputBlockElement METPlainTextInput True) False,
       InputBlock MBTInput blockIdExpected (plain ''What behavior did you expect instead?'')
         (PlainTextInputBlockElement METPlainTextInput True) False
     ]\<rparr>"

subsection \<open>The submission validator\<close>

text \<open>
  \<open>json.Marshal\<close> belongs to the standard library; the validator takes it as a parameter that
  returns the bytes or an error.
\<close>

type_synonym marshaler = "ViewSubmissionResponse \<Rightarrow> error + bytes"

text \<open>The first loop: \<open>otherSelected\<close> becomes true at any action whose selected option is "Other".\<close>

fun otherSelected_loop :: "BlockAction list \<Rightarrow> bool \<Rightarrow> bool" where
  "otherSelected_loop [] otherSelected = otherSelected"
| "otherSelected_loop (action # rest) otherSelected =
     otherSelected_loop rest
       (if opt_Value (act_SelectedOption action) = componentOther then True else otherSelected)"

definition invalid_response :: ViewSubmissionResponse where
  "invalid_response = \<lparr>
     vsr_ResponseAction = RAErrors,
     vsr_View = None,
     vsr_Errors = [(blockIdOptional, ''Provide a description of the other component.'')]\<rparr>"

text \<open>
  The second loop returns from the handler at the first action whose value is empty; \<open>None\<close>
  says that the loop ran to its end without returning.
\<close>

fun optional_loop ::
  "marshaler \<Rightarrow> BlockAction list \<Rightarrow> World \<Rightarrow> (PartialHandlerResult \<times> World) option" where
  "optional_loop marshal [] w = None"
| "optional_loop marshal (action # rest) w =
     (if act_Value action = []
      then (let w1 = log_to DebugLevel ''Detected invalid submission.'' None w in
            case marshal invalid_response of
              Inl err \<Rightarrow>
                Some ((True, None, Some err),
                      log_to ErrorLevel ''Failed to marshal view submission response.'' (Some err) w1)
            | Inr response \<Rightarrow> Some ((True, Some response, None), w1))
      else optional_loop marshal rest w)"

definition validate_body ::
  "marshaler \<Rightarrow> InteractionCallback \<Rightarrow> World \<Rightarrow> PartialHandlerResult \<times> World" where
  "validate_body marshal callback w =
     (let vals = view_State_Values (cb_View callback);
          otherSelected = otherSelected_loop (actions_of vals blockIdCategory) False
      in if otherSelected
         then (case optional_loop marshal (actions_of vals blockIdOptional) w of
                 Some res \<Rightarrow> res
               | None \<Rightarrow> ((False, None, None), w))
         else ((False, None, None), w))"

definition validateSubmissionHandler ::
  "marshaler \<Rightarrow> (InteractionCallback, World) PartialHandler" where
  "validateSubmissionHandler marshal =
     PartialHandlerFunc (Identifier @ ''.validate'') (validate_body marshal)"

subsection \<open>The issue template\<close>

text \<open>
  Executing a parsed template over the data, a map from field names to strings. The library
  prints a field that the map lacks as \<open><no value>\<close>; comparing such a field with a string
  constant is false, so the branch takes its \<open>else\<close> part; nothing is escaped. Execution
  returns the text or an error, as the library's \<open>Execute\<close> does; none of the constructs here
  raises one.
\<close>

definition nl :: string where "nl = [CHR 0x0A]"

fun Execute_node :: "(string \<times> string) list \<Rightarrow> Node \<Rightarrow> error + string"
  and Execute :: "(string \<times> string) list \<Rightarrow> Node list \<Rightarrow> error + string" where
  "Execute_node data (TextNode s) = Inr s"
| "Execute_node data (FieldNode k) =
     Inr (case map_of data k of Some v \<Rightarrow> v | None \<Rightarrow> ''<no value>'')"
| "Execute_node data (IfEqNode k c yes no) =
     (case map_of data k of
        None \<Rightarrow> Execute data no
      | Some v \<Rightarrow> if v = c then Execute data yes else Execute data no)"
| "Execute data [] = Inr []"
| "Execute data (n # ns) =
     (case Execute_node data n of
        Inl e \<Rightarrow> Inl e
      | Inr s \<Rightarrow> (case Execute data ns of Inl e \<Rightarrow> Inl e | Inr t \<Rightarrow> Inr (s @ t)))"

text \<open>
  Modelled from the spec: the constant \<open>jira.IssueTypeBug\<close> is declared outside the sources;
  the specification calls it "a type tag".
\<close>

definition IssueTypeBug :: IssueType where "IssueTypeBug = ''Bug''"

text \<open>
  The template of \<open>issueParameters\<close>, parsed: the source builds the text by concatenating the
  block identifiers into it, and so does the tree.
\<close>

definition issueParameters :: JiraIssueParameters where
  "issueParameters = \<lparr>
     jp_Id = Identifier,
     jp_IssueType = IssueTypeBug,
     jp_Template = [
       TextNode (''h3. Symptomatic Behavior'' @ nl),
       FieldNode blockIdSymptom,
       TextNode (nl @ nl @ ''h3. Expected Behavior'' @ nl),
       FieldNode blockIdExpected,
       TextNode (nl @ nl @ ''h3. Category'' @ nl),
       IfEqNode (blockIdCategory @ ''_static_select'') ''Other''
         [TextNode ''Other: '', FieldNode blockIdOptional]
         [FieldNode (blockIdCategory @ ''_static_select'')]],
     jp_Fields = [BlockIdTitle, blockIdCategory, blockIdOptional, blockIdSymptom, blockIdExpected]\<rparr>"

subsection \<open>Filing the issue\<close>

text \<open>
  The tracker client and the view updater are the capabilities of section 6 of the
  specification: \<open>File(issueType, title, body) -> (ticketID, error)\<close> and
  \<open>UpdateView(viewHandle, newContent) -> error\<close>.
\<close>

type_synonym IssueFiler = "RenderedIssue \<Rightarrow> World \<Rightarrow> (error + string) \<times> World"
type_synonym ViewUpdater = "string \<Rightarrow> ViewContent \<Rightarrow> World \<Rightarrow> error option \<times> World"

text \<open>
  Modelled from the spec: the type \<open>interactions.Handler\<close> is declared outside the sources. A
  handler that is not partial returns a response payload and an error, as the call in \<open>main\<close>
  shows.
\<close>

record ('i, 'w) Handler =
  h_Identifier :: string
  h_Handle :: "'i \<Rightarrow> 'w \<Rightarrow> (bytes option \<times> error option) \<times> 'w"

text \<open>
  Modelled from the spec: the function that reads the submitted values out of a callback is
  outside the sources. Section 3: \<open>fieldValues\<close> maps a block identifier (and, for selectable
  widgets, a sub-key distinguishing the selected-option value from free text) to the submitted
  value; the sub-key is the \<open>_static_select\<close> suffix the template of the sources reads.
\<close>

fun action_entries :: "string \<Rightarrow> BlockAction list \<Rightarrow> (string \<times> string) list" where
  "action_entries blockId [] = []"
| "action_entries blockId (action # rest) =
     (case act_Type action of
        METPlainTextInput \<Rightarrow> (blockId, act_Value action)
      | OptTypeStatic \<Rightarrow> (blockId @ ''_static_select'', opt_Value (act_SelectedOption action)))
     # action_entries blockId rest"

text \<open>
  Modelled from the spec: the values of the listed blocks, in the order of the list (section 3,
  \<open>fieldValues\<close>).
\<close>

definition fieldValues :: "InteractionCallback \<Rightarrow> string list \<Rightarrow> (string \<times> string) list" where
  "fieldValues callback blockIds =
     concat (map (\<lambda>f. action_entries f (actions_of (view_State_Values (cb_View callback)) f)) blockIds)"



text \<open>
  Modelled from the spec: what the view updater is told about the end of a filing (section
  4.5: a confirmation referencing the ticket on success, a failure notice on tracker failure).
\<close>

definition notice :: "error + string \<Rightarrow> ViewContent" where
  "notice outcome = (case outcome of Inl e \<Rightarrow> FailureNotice e | Inr ticket \<Rightarrow> Confirmation ticket)"


text \<open>
  Modelled from the spec: the handler of \<open>modals.ToJiraIssue\<close>. It answers at once, without
  error, and leaves the filing task pending; the filer and the updater it is given are those of
  the process, with which the pending tasks are run. The specification names no payload for
  this answer; it is nil here.
\<close>

definition ToJiraIssue ::
  "JiraIssueParameters \<Rightarrow> IssueFiler \<Rightarrow> ViewUpdater \<Rightarrow> (InteractionCallback, World) Handler" where
  "ToJiraIssue parameters filer updater = \<lparr>
     h_Identifier = jp_Id parameters @ ''.jira'',
     h_Handle = (\<lambda>callback w.
       ((None, None), w\<lparr>tasks := tasks w @ [FilingTask parameters callback]\<rparr>))\<rparr>"


text \<open>
  Modelled from the spec: \<open>interactions.PartialFromHandler\<close> is outside the sources. The
  glossary: a partial handler may decline to act; a handler that is not partial always acts, so
  the partial handler made from it always claims the input.
\<close>

definition PartialFromHandler :: "('i, 'w) Handler \<Rightarrow> ('i, 'w) PartialHandler" where
  "PartialFromHandler h = \<lparr>
     ph_Identifier = h_Identifier h,
     ph_Handle = (\<lambda>x w. case h_Handle h x w of ((response, err), w') \<Rightarrow> ((True, response, err), w'))\<rparr>"

definition processSubmissionHandler ::
  "IssueFiler \<Rightarrow> ViewUpdater \<Rightarrow> (InteractionCallback, World) PartialHandler" where
  "processSubmissionHandler filer updater =
     PartialFromHandler (ToJiraIssue issueParameters filer updater)"

subsection \<open>Registration\<close>

text \<open>
  Modelled from the spec: \<open>modals.ForView\<close> and \<open>WithFollowUps\<close> are outside the sources.
  Section 3: a flow has an identifier, an initial view and a mapping from interaction sub-type
  to a composed handler chain.
\<close>

record Flow =
  flow_Identifier :: string
  flow_View :: ModalViewRequest
  flow_FollowUps ::
    "(InteractionType \<times> (InteractionCallback \<Rightarrow> World \<Rightarrow> PartialHandlerResult \<times> World)) list"

text \<open>
  Modelled from the spec: \<open>ForView\<close> makes the flow of an identifier and its initial view, with
  no follow-ups yet.
\<close>

definition ForView :: "string \<Rightarrow> ModalViewRequest \<Rightarrow> Flow" where
  "ForView identifier view = \<lparr>flow_Identifier = identifier, flow_View = view, flow_FollowUps = []\<rparr>"

text \<open>Modelled from the spec: \<open>WithFollowUps\<close> sets the follow-up chains of a flow.\<close>

definition WithFollowUps ::
  "Flow \<Rightarrow> (InteractionType \<times> (InteractionCallback \<Rightarrow> World \<Rightarrow> PartialHandlerResult \<times> World)) list
   \<Rightarrow> Flow" where
  "WithFollowUps flow followUps = flow\<lparr>flow_FollowUps := followUps\<rparr>"

text \<open>
  \<open>Register\<close> of the bug form: the flow of \<open>Identifier\<close> and \<open>View\<close> whose view submissions go
  to the validator and then to the issue filer. The marshaller is the parameter of the validator.
\<close>

definition Register :: "marshaler \<Rightarrow> IssueFiler \<Rightarrow> ViewUpdater \<Rightarrow> Flow" where
  "Register marshal filer client =
     WithFollowUps (ForView Identifier View)
       [(InteractionTypeViewSubmission,
         MultiHandler [validateSubmissionHandler marshal, processSubmissionHandler filer client])]"

section \<open>The flow registry and the interaction router\<close>

text \<open>
  Modelled from the spec: the interaction router is outside the sources. Section 4.3:
  \<open>Register(flow)\<close> adds a flow keyed by its identifier, and a duplicate identifier is a
  programming error; \<open>Route(callback)\<close> extracts the flow identifier from the callback's private
  metadata; if no flow is registered under it, it returns a "no matching flow" error (section 8:
  and claims the input); on a match it looks up the follow-up chain for the callback's
  interaction type and returns unclaimed, without error, if there is none.
\<close>

type_synonym Registry = "(string \<times> Flow) list"

text \<open>
  Modelled from the spec: \<open>Register(flow)\<close> of section 4.3; a duplicate identifier is an error.
\<close>

definition Registry_Register :: "Flow \<Rightarrow> Registry \<Rightarrow> error + Registry" where
  "Registry_Register flow registry =
     (case map_of registry (flow_Identifier flow) of
        Some _ \<Rightarrow> Inl (DuplicateFlow (flow_Identifier flow))
      | None \<Rightarrow> Inr ((flow_Identifier flow, flow) # registry))"

text \<open>
  Modelled from the spec: the flows registered once at process start, one after the other
  (section 3).
\<close>

fun register_all :: "Flow list \<Rightarrow> Registry \<Rightarrow> error + Registry" where
  "register_all [] registry = Inr registry"
| "register_all (flow # flows) registry =
     (case Registry_Register flow registry of
        Inl e \<Rightarrow> Inl e
      | Inr registry' \<Rightarrow> register_all flows registry')"

text \<open>Modelled from the spec: \<open>Route(callback)\<close> of section 4.3.\<close>

definition Route ::
  "Registry \<Rightarrow> InteractionCallback \<Rightarrow> World \<Rightarrow> PartialHandlerResult \<times> World" where
  "Route registry callback w =
     (let flowIdentifier = view_PrivateMetadata (cb_View callback) in
      case map_of registry flowIdentifier of
        None \<Rightarrow> ((True, None, Some (RoutingMiss flowIdentifier)), w)
      | Some flow \<Rightarrow>
          (case map_of (flow_FollowUps flow) (cb_Type callback) of
             None \<Rightarrow> ((False, None, None), w)
           | Some chain \<Rightarrow> chain callback w))"

section \<open>The dispatch loop\<close>

text \<open>
  The goroutine of \<open>main\<close> selects between the cancellation of its context and the next event
  of the socket client. An event carries its type tag, its data (of a dynamic type that the loop
  asserts) and a pointer to the request that \<open>Ack\<close> answers. The model records, in order, the
  calls the loop makes: acknowledgments, handler invocations and log lines (the format string
  of each \<open>log.Printf\<close>). The two routers are parameters acting on a world of their own.
\<close>

type_synonym Request = string

datatype EventType = EventTypeEventsAPI | EventTypeInteractive | EventTypeOther string

datatype 'e EventData =
    DataEventsAPIEvent 'e
  | DataInteractionCallback InteractionCallback
  | DataOther

record 'e Event =
  ev_Type :: EventType
  ev_Data :: "'e EventData"
  ev_Request :: "Request option"

datatype 'e Call =
    Ack Request "bytes option list"
  | EventsHandle 'e
  | InteractionsHandle InteractionCallback
  | Printf string
  | Println string

record ('e, 'w) Listener =
  calls :: "'e Call list"
  world :: 'w

datatype Panic = NilPointerDereference

definition call :: "'e Call \<Rightarrow> ('e, 'w) Listener \<Rightarrow> ('e, 'w) Listener" where
  "call c s = s\<lparr>calls := calls s @ [c]\<rparr>"

text \<open>
  One received event. \<open>Inr\<close> is the state with which the loop goes on to its next iteration;
  \<open>Inl\<close> is a panic, which \<open>*event.Request\<close> raises when the pointer is nil.
\<close>

definition on_event ::
  "('e \<Rightarrow> 'w \<Rightarrow> 'w) \<Rightarrow> (InteractionCallback \<Rightarrow> 'w \<Rightarrow> (bytes option \<times> error option) \<times> 'w)
   \<Rightarrow> 'e Event \<Rightarrow> ('e, 'w) Listener \<Rightarrow> (Panic \<times> ('e, 'w) Listener) + ('e, 'w) Listener" where
  "on_event eventsHandle interactionsHandle event s =
     (case ev_Type event of
        EventTypeEventsAPI \<Rightarrow>
          (case ev_Data event of
             DataEventsAPIEvent eventData \<Rightarrow>
               (case ev_Request event of
                  None \<Rightarrow> Inl (NilPointerDereference, s)
                | Some request \<Rightarrow>
                    (let s1 = call (Ack request []) s;
                         s2 = call (EventsHandle eventData) s1
                     in Inr (s2\<lparr>world := eventsHandle eventData (world s2)\<rparr>)))
           | _ \<Rightarrow>
               Inr (call (Printf (''Could not type cast the event to the EventsAPIEvent: %v'' @ nl)) s))
      | EventTypeInteractive \<Rightarrow>
          (case ev_Data event of
             DataInteractionCallback interactionData \<Rightarrow>
               (let s1 = call (InteractionsHandle interactionData) s in
                case interactionsHandle interactionData (world s1) of
                  ((payload, Some err), w') \<Rightarrow>
                    Inr (call (Printf (''error building payload: %v'' @ nl)) (s1\<lparr>world := w'\<rparr>))
                | ((payload, None), w') \<Rightarrow>
                    (case ev_Request event of
                       None \<Rightarrow> Inl (NilPointerDereference, s1\<lparr>world := w'\<rparr>)
                     | Some request \<Rightarrow> Inr (call (Ack request [payload]) (s1\<lparr>world := w'\<rparr>))))
           | _ \<Rightarrow>
               Inr (call (Printf (''Could not type cast the event to the InteractionCallback: %v'' @ nl)) s))
      | EventTypeOther _ \<Rightarrow> Inr s)"

text \<open>
  The loop over what the \<open>select\<close> statement receives. The list is the finite prefix of the
  inputs seen so far: at its end the goroutine is still waiting (\<open>Waiting\<close>).
\<close>

datatype 'e Selected = CtxDone | Received "'e Event"

datatype ('e, 'w) Outcome =
    Returned "('e, 'w) Listener"
  | Panicked "('e, 'w) Listener"
  | Waiting "('e, 'w) Listener"

fun listener ::
  "('e \<Rightarrow> 'w \<Rightarrow> 'w) \<Rightarrow> (InteractionCallback \<Rightarrow> 'w \<Rightarrow> (bytes option \<times> error option) \<times> 'w)
   \<Rightarrow> 'e Selected list \<Rightarrow> ('e, 'w) Listener \<Rightarrow> ('e, 'w) Outcome" where
  "listener eventsHandle interactionsHandle [] s = Waiting s"
| "listener eventsHandle interactionsHandle (CtxDone # rest) s =
     Returned (call (Println ''Shutting down socketmode listener'') s)"
| "listener eventsHandle interactionsHandle (Received event # rest) s =
     (case on_event eventsHandle interactionsHandle event s of
        Inl (p, s') \<Rightarrow> Panicked s'
      | Inr s' \<Rightarrow> listener eventsHandle interactionsHandle rest s')"

text \<open>What the claims about the loop speak of: the acknowledgments among a list of calls.\<close>

fun is_Ack :: "'e Call \<Rightarrow> bool" where
  "is_Ack (Ack request payload) = True"
| "is_Ack c = False"

fun ack_comes_first :: "'e Call list \<Rightarrow> bool" where
  "ack_comes_first [] = False"
| "ack_comes_first (c # cs) = is_Ack c"

section \<open>Collaborators that record their calls, and example inputs\<close>

text \<open>
  A tracker client that records each rendered issue it is sent and answers as \<open>respond\<close> says,
  and a view updater that records each update: the counterparts of the fakes the repository's
  tests hand to the submission handler.
\<close>

definition recording_filer :: "(RenderedIssue \<Rightarrow> error + string) \<Rightarrow> IssueFiler" where
  "recording_filer respond issue w = (respond issue, w\<lparr>tracker_calls := tracker_calls w @ [issue]\<rparr>)"

definition recording_updater :: ViewUpdater where
  "recording_updater viewHandle content w =
     (None, w\<lparr>view_updates := view_updates w @ [(viewHandle, content)]\<rparr>)"

definition empty_world :: World where
  "empty_world = \<lparr>logs = [], tracker_calls = [], view_updates = [], filed = [], tasks = []\<rparr>"




definition text_action :: "string \<Rightarrow> BlockAction" where
  "text_action v =
     \<lparr>act_Type = METPlainTextInput, act_Value = v, act_SelectedOption = OptionBlockObject [] None\<rparr>"

definition select_action :: "string \<Rightarrow> BlockAction" where
  "select_action c =
     \<lparr>act_Type = OptTypeStatic, act_Value = [], act_SelectedOption = component_option c\<rparr>"

definition example_submission :: "string \<Rightarrow> string \<Rightarrow> InteractionCallback" where
  "example_submission category qualifier = \<lparr>
     cb_Type = InteractionTypeViewSubmission,
     cb_User_ID = ''U100'',
     cb_View = \<lparr>
       view_ID = ''V200'',
       view_PrivateMetadata = ''bug'',
       view_State_Values = [
         (''title'', [(''a1'', text_action ''Install hangs'')]),
         (''category'', [(''a2'', select_action category)]),
         (''optional'', [(''a3'', text_action qualifier)]),
         (''symptom'', [(''a4'', text_action ''It hangs at 80%.'')]),
         (''expected'', [(''a5'', text_action ''It completes.'')])]\<rparr>\<rparr>"

definition dq :: string where "dq = [CHR 0x22]"

fun json_members :: "(string \<times> string) list \<Rightarrow> string" where
  "json_members [] = []"
| "json_members [(k, v)] = dq @ k @ dq @ '':'' @ dq @ v @ dq"
| "json_members ((k, v) # rest) = dq @ k @ dq @ '':'' @ dq @ v @ dq @ '','' @ json_members rest"

definition example_marshal :: marshaler where
  "example_marshal r =
     Inr (''{'' @ dq @ ''response_action'' @ dq @ '':'' @ dq @ ''errors'' @ dq @ '','' @
          dq @ ''errors'' @ dq @ '':{'' @ json_members (vsr_Errors r) @ ''}}'')"

definition failing_marshal :: marshaler where
  "failing_marshal r = Inl (MarshalingFailure ''json: unsupported value'')"

definition example_respond :: "RenderedIssue \<Rightarrow> error + string" where
  "example_respond issue = Inr ''BUG-1''"

text \<open>Handlers that only note, in a world of names, that they ran.\<close>

definition declining :: "string \<Rightarrow> ('i, string list) PartialHandler" where
  "declining name =
     \<lparr>ph_Identifier = name, ph_Handle = (\<lambda>x w. ((False, None, None), w @ [name]))\<rparr>"

definition claiming :: "string \<Rightarrow> bytes option \<Rightarrow> error option \<Rightarrow> ('i, string list) PartialHandler" where
  "claiming name response err =
     \<lparr>ph_Identifier = name, ph_Handle = (\<lambda>x w. ((True, response, err), w @ [name]))\<rparr>"

text \<open>A callback whose view names a flow that is not registered, events and routers for the loop,
  and the issue the example submission renders to.\<close>

definition stale_submission :: InteractionCallback where
  "stale_submission =
     (example_submission ''SNO'' [])\<lparr>cb_View :=
        (cb_View (example_submission ''SNO'' []))\<lparr>view_PrivateMetadata := ''helpdesk''\<rparr>\<rparr>"

definition interactive_event :: "unit Event" where
  "interactive_event =
     \<lparr>ev_Type = EventTypeInteractive,
      ev_Data = DataInteractionCallback (example_submission ''SNO'' []),
      ev_Request = Some ''envelope-1''\<rparr>"

definition mistyped_event :: "unit Event" where
  "mistyped_event =
     \<lparr>ev_Type = EventTypeEventsAPI, ev_Data = DataOther, ev_Request = Some ''envelope-2''\<rparr>"

definition events_api_event :: "unit Event" where
  "events_api_event =
     \<lparr>ev_Type = EventTypeEventsAPI, ev_Data = DataEventsAPIEvent (), ev_Request = Some ''envelope-3''\<rparr>"

definition idle :: "(unit, nat) Listener" where
  "idle = \<lparr>calls = [], world = 0\<rparr>"

definition counting_events :: "unit \<Rightarrow> nat \<Rightarrow> nat" where
  "counting_events e w = Suc w"

definition answering :: "InteractionCallback \<Rightarrow> nat \<Rightarrow> (bytes option \<times> error option) \<times> nat" where
  "answering c w = ((Some ''{}'', None), Suc w)"

definition erring :: "InteractionCallback \<Rightarrow> nat \<Rightarrow> (bytes option \<times> error option) \<times> nat" where
  "erring c w = ((None, Some (MarshalingFailure ''json: unsupported value'')), Suc w)"



section \<open>Properties of the submission validator and of handler composition\<close>


lemma otherSelected_loop_iff:
  "otherSelected_loop acts b \<longleftrightarrow>
     b \<or> (\<exists>a \<in> set acts. opt_Value (act_SelectedOption a) = componentOther)"
  by (induction acts arbitrary: b) auto

lemma optional_loop_None:
  "optional_loop marshal acts w = None \<longleftrightarrow> (\<forall>a \<in> set acts. act_Value a \<noteq> [])"
  by (induction acts) (auto simp: Let_def split: sum.splits)

lemma optional_loop_Inr:
  "\<exists>a \<in> set acts. act_Value a = [] \<Longrightarrow> marshal invalid_response = Inr response \<Longrightarrow>
   optional_loop marshal acts w =
     Some ((True, Some response, None), log_to DebugLevel ''Detected invalid submission.'' None w)"
  by (induction acts) (auto simp: Let_def)

lemma optional_loop_Inl:
  "\<exists>a \<in> set acts. act_Value a = [] \<Longrightarrow> marshal invalid_response = Inl err \<Longrightarrow>
   optional_loop marshal acts w =
     Some ((True, None, Some err),
           log_to ErrorLevel ''Failed to marshal view submission response.'' (Some err)
             (log_to DebugLevel ''Detected invalid submission.'' None w))"
  by (induction acts) (auto simp: Let_def)

lemma Handle_validate:
  "ph_Handle (validateSubmissionHandler marshal) = validate_body marshal"
  by (simp add: validateSubmissionHandler_def PartialHandlerFunc_def)

lemma Handle_process_claims:
  "fst (fst (ph_Handle (processSubmissionHandler filer updater) callback w))"
  by (simp add: processSubmissionHandler_def PartialFromHandler_def split: prod.splits)

lemma Register_submission_chain:
  "map_of (flow_FollowUps (Register marshal filer client)) InteractionTypeViewSubmission =
     Some (MultiHandler [validateSubmissionHandler marshal, processSubmissionHandler filer client])"
  by (simp add: Register_def WithFollowUps_def ForView_def)

lemma MultiHandler_claimed_head:
  "fst (fst (ph_Handle h x w)) \<Longrightarrow> MultiHandler (h # hs) x w = ph_Handle h x w"
  by (cases "ph_Handle h x w") auto

lemma validate_body_invalid_Inr:
  assumes "\<exists>a \<in> set (actions_of (view_State_Values (cb_View callback)) blockIdCategory).
             opt_Value (act_SelectedOption a) = componentOther"
    and "\<exists>a \<in> set (actions_of (view_State_Values (cb_View callback)) blockIdOptional).
             act_Value a = []"
    and "marshal invalid_response = Inr response"
  shows "validate_body marshal callback w =
     ((True, Some response, None), log_to DebugLevel ''Detected invalid submission.'' None w)"
  using assms
  by (simp add: validate_body_def Let_def otherSelected_loop_iff optional_loop_Inr)

lemma validate_body_invalid_Inl:
  assumes "\<exists>a \<in> set (actions_of (view_State_Values (cb_View callback)) blockIdCategory).
             opt_Value (act_SelectedOption a) = componentOther"
    and "\<exists>a \<in> set (actions_of (view_State_Values (cb_View callback)) blockIdOptional).
             act_Value a = []"
    and "marshal invalid_response = Inl err"
  shows "validate_body marshal callback w =
     ((True, None, Some err),
      log_to ErrorLevel ''Failed to marshal view submission response.'' (Some err)
        (log_to DebugLevel ''Detected invalid submission.'' None w))"
  using assms
  by (simp add: validate_body_def Let_def otherSelected_loop_iff optional_loop_Inl)

lemma validate_body_valid:
  assumes "(\<forall>a \<in> set (actions_of (view_State_Values (cb_View callback)) blockIdCategory).
              opt_Value (act_SelectedOption a) \<noteq> componentOther) \<or>
           (\<forall>a \<in> set (actions_of (view_State_Values (cb_View callback)) blockIdOptional).
              act_Value a \<noteq> [])"
  shows "validate_body marshal callback w = ((False, None, None), w)"
proof (cases "otherSelected_loop (actions_of (view_State_Values (cb_View callback)) blockIdCategory) False")
  case False
  then show ?thesis by (simp add: validate_body_def Let_def)
next
  case True
  then have "\<forall>a \<in> set (actions_of (view_State_Values (cb_View callback)) blockIdOptional).
              act_Value a \<noteq> []"
    using assms by (auto simp: otherSelected_loop_iff)
  then have "optional_loop marshal (actions_of (view_State_Values (cb_View callback)) blockIdOptional) w = None"
    by (simp add: optional_loop_None)
  then show ?thesis using True by (simp add: validate_body_def Let_def)
qed

text \<open>
  Claim C2. When an action of the category block has the option "Other" selected and an action
  of the qualifier block (\<open>optional\<close>) has the empty value, and the response marshals, the
  submission validator returns \<open>handled=true\<close> with the marshalled response and no error. The
  response has the action \<open>errors\<close> and maps the block identifier \<open>optional\<close> to "Provide a
  description of the other component.". The view-submission chain that \<open>Register\<close> composes
  returns the same result and leaves the world as it was but for the validator's debug line, for
  every filer and updater: the issue filer is not invoked.
\<close>

theorem validate_rejects_other_without_qualifier:
  assumes "\<exists>a \<in> set (actions_of (view_State_Values (cb_View callback)) blockIdCategory).
             opt_Value (act_SelectedOption a) = ''Other''"
    and "\<exists>a \<in> set (actions_of (view_State_Values (cb_View callback)) blockIdOptional).
             act_Value a = []"
    and "marshal invalid_response = Inr response"
  shows "ph_Handle (validateSubmissionHandler marshal) callback w =
           ((True, Some response, None),
            log_to DebugLevel ''Detected invalid submission.'' None w)
       \<and> vsr_ResponseAction invalid_response = RAErrors
       \<and> vsr_Errors invalid_response =
           [(blockIdOptional, ''Provide a description of the other component.'')]
       \<and> (\<exists>chain. map_of (flow_FollowUps (Register marshal filer client))
                     InteractionTypeViewSubmission = Some chain
            \<and> chain callback w =
                ((True, Some response, None),
                 log_to DebugLevel ''Detected invalid submission.'' None w))
       \<and> tracker_calls (log_to DebugLevel ''Detected invalid submission.'' None w) = tracker_calls w"
proof -
  have other: "\<exists>a \<in> set (actions_of (view_State_Values (cb_View callback)) blockIdCategory).
             opt_Value (act_SelectedOption a) = componentOther"
    using assms(1) by (simp add: componentOther_def)
  have v: "ph_Handle (validateSubmissionHandler marshal) callback w =
           ((True, Some response, None),
            log_to DebugLevel ''Detected invalid submission.'' None w)"
    using validate_body_invalid_Inr[where marshal = marshal and response = response, OF other assms(2,3)]
    by (simp add: Handle_validate)
  have c: "MultiHandler [validateSubmissionHandler marshal, processSubmissionHandler filer client]
             callback w =
           ((True, Some response, None),
            log_to DebugLevel ''Detected invalid submission.'' None w)"
    using v by simp
  show ?thesis
    using v c by (simp add: Register_submission_chain invalid_response_def log_to_def)
qed

theorem validate_rejects_other_without_qualifier_witness:
  "ph_Handle (validateSubmissionHandler example_marshal) (example_submission ''Other'' [])
     empty_world =
     ((True,
       Some (''{'' @ dq @ ''response_action'' @ dq @ '':'' @ dq @ ''errors'' @ dq @ '','' @
             dq @ ''errors'' @ dq @ '':{'' @ dq @ ''optional'' @ dq @ '':'' @ dq @
             ''Provide a description of the other component.'' @ dq @ ''}}''),
       None),
      \<lparr>logs = [(DebugLevel, ''Detected invalid submission.'', None)], tracker_calls = [],
         view_updates = [], filed = [], tasks = []\<rparr>)"
proof -
  have h1: "\<exists>a \<in> set (actions_of (view_State_Values (cb_View (example_submission ''Other'' [])))
                        blockIdCategory). opt_Value (act_SelectedOption a) = ''Other''"
    by (simp add: example_submission_def actions_of_def blockIdCategory_def select_action_def
        component_option_def)
  have h2: "\<exists>a \<in> set (actions_of (view_State_Values (cb_View (example_submission ''Other'' [])))
                        blockIdOptional). act_Value a = []"
    by (simp add: example_submission_def actions_of_def blockIdOptional_def text_action_def)
  have h3: "example_marshal invalid_response =
      Inr (''{'' @ dq @ ''response_action'' @ dq @ '':'' @ dq @ ''errors'' @ dq @ '','' @
             dq @ ''errors'' @ dq @ '':{'' @ dq @ ''optional'' @ dq @ '':'' @ dq @
             ''Provide a description of the other component.'' @ dq @ ''}}'')"
    by (simp add: example_marshal_def invalid_response_def blockIdOptional_def)
  show ?thesis
    using validate_rejects_other_without_qualifier[where marshal = example_marshal
        and callback = "example_submission ''Other'' []" and w = empty_world, OF h1 h2 h3]
    by (simp add: log_to_def empty_world_def)
qed

lemma MultiHandler_decline_append:
  "all_decline pre x w = Some w' \<Longrightarrow> MultiHandler (pre @ hs) x w = MultiHandler hs x w'"
  by (induction pre arbitrary: w) (auto split: prod.splits if_splits)

lemma all_decline_total:
  "(\<exists>v. all_decline hs x w = Some v) \<or>
   (\<exists>pre h post v. hs = pre @ h # post \<and> all_decline pre x w = Some v \<and>
      fst (fst (ph_Handle h x v)))"
proof (induction hs arbitrary: w)
  case Nil
  then show ?case by simp
next
  case (Cons h hs)
  obtain r w1 where hw: "ph_Handle h x w = (r, w1)" by (cases "ph_Handle h x w")
  show ?case
  proof (cases "fst r")
    case True
    then have "h # hs = [] @ h # hs \<and> all_decline [] x w = Some w \<and> fst (fst (ph_Handle h x w))"
      using hw by simp
    then show ?thesis by blast
  next
    case False
    from Cons.IH[of w1] show ?thesis
    proof
      assume "\<exists>v. all_decline hs x w1 = Some v"
      then show ?thesis using hw False by simp
    next
      assume "\<exists>pre h' post v. hs = pre @ h' # post \<and> all_decline pre x w1 = Some v \<and>
        fst (fst (ph_Handle h' x v))"
      then obtain pre h' post v where
        "hs = pre @ h' # post" "all_decline pre x w1 = Some v" "fst (fst (ph_Handle h' x v))"
        by blast
      then have "h # hs = (h # pre) @ h' # post \<and> all_decline (h # pre) x w = Some v \<and>
        fst (fst (ph_Handle h' x v))"
        using hw False by simp
      then show ?thesis by blast
    qed
  qed
qed

text \<open>
  Claim C4. For every sequence of partial handlers and every input: if the handlers of \<open>pre\<close>
  all decline and the next handler \<open>h\<close> claims the input, the composed handler returns the
  result of \<open>h\<close> unchanged, whatever its payload and error are and whatever handlers \<open>post\<close>
  follow it (they do not run: the world is the one \<open>h\<close> left); if all handlers decline, it
  returns \<open>handled=false\<close> with no payload and no error; and one of the two always is the case.
\<close>

theorem MultiHandler_first_claim_wins:
  "(all_decline pre x w = Some w' \<and> fst (fst (ph_Handle h x w')) \<longrightarrow>
      MultiHandler (pre @ h # post) x w = ph_Handle h x w')
   \<and> (all_decline hs x w = Some w'' \<longrightarrow> MultiHandler hs x w = ((False, None, None), w''))
   \<and> ((\<exists>v. all_decline hs x w = Some v) \<or>
       (\<exists>pre h post v. hs = pre @ h # post \<and> all_decline pre x w = Some v \<and>
          fst (fst (ph_Handle h x v))))"
proof (intro conjI impI)
  assume a: "all_decline pre x w = Some w' \<and> fst (fst (ph_Handle h x w'))"
  then have "MultiHandler (pre @ h # post) x w = MultiHandler (h # post) x w'"
    by (simp add: MultiHandler_decline_append)
  also have "\<dots> = ph_Handle h x w'"
    using a by (intro MultiHandler_claimed_head) simp
  finally show "MultiHandler (pre @ h # post) x w = ph_Handle h x w'" .
next
  assume "all_decline hs x w = Some w''"
  then have "MultiHandler (hs @ []) x w = MultiHandler [] x w''"
    by (rule MultiHandler_decline_append)
  then show "MultiHandler hs x w = ((False, None, None), w'')" by simp
next
  show "(\<exists>v. all_decline hs x w = Some v) \<or>
       (\<exists>pre h post v. hs = pre @ h # post \<and> all_decline pre x w = Some v \<and>
          fst (fst (ph_Handle h x v)))"
    by (rule all_decline_total)
qed

theorem MultiHandler_first_claim_wins_witness:
  "MultiHandler [declining ''A'', claiming ''B'' (Some ''ok'') None, claiming ''C'' None None]
     (0::nat) [] = ((True, Some ''ok'', None), [''A'', ''B''])
   \<and> MultiHandler [claiming ''A'' None (Some (FilingFailure ''X'')), claiming ''C'' None None]
     (0::nat) [] = ((True, None, Some (FilingFailure ''X'')), [''A''])
   \<and> MultiHandler [declining ''A'', declining ''B''] (0::nat) [] = ((False, None, None), [''A'', ''B''])"
proof -
  have d: "all_decline [declining ''A''] (0::nat) [] = Some [''A'']"
    by (simp add: declining_def)
  have c: "fst (fst (ph_Handle (claiming ''B'' (Some ''ok'') None) (0::nat) [''A'']))"
    by (simp add: claiming_def)
  have t1: "MultiHandler ([declining ''A''] @ claiming ''B'' (Some ''ok'') None #
              [claiming ''C'' None None]) (0::nat) [] =
            ph_Handle (claiming ''B'' (Some ''ok'') None) (0::nat) [''A'']"
    using MultiHandler_first_claim_wins[where pre = "[declining ''A'']" and x = "0::nat"
        and w = "[]" and w' = "[''A'']" and h = "claiming ''B'' (Some ''ok'') None"
        and post = "[claiming ''C'' None None]"] d c
    by blast
  have t2: "MultiHandler [claiming ''A'' None (Some (FilingFailure ''X'')), claiming ''C'' None None]
     (0::nat) [] = ((True, None, Some (FilingFailure ''X'')), [''A''])"
    by (simp add: claiming_def)
  have t3: "MultiHandler [declining ''A'', declining ''B''] (0::nat) [] =
      ((False, None, None), [''A'', ''B''])"
    by (simp add: declining_def)
  show ?thesis using t1 t2 t3 by (simp add: claiming_def)
qed

text \<open>
  Claim C3. When no action of the category block has "Other" selected, or no action of the
  qualifier block has the empty value, the submission validator returns \<open>handled=false\<close> with a
  nil payload and a nil error and changes nothing, and the view-submission chain that \<open>Register\<close>
  composes goes on to the issue filer: its result is the filer's.
\<close>

theorem validate_passes_valid_submission:
  assumes "(\<forall>a \<in> set (actions_of (view_State_Values (cb_View callback)) blockIdCategory).
              opt_Value (act_SelectedOption a) \<noteq> ''Other'') \<or>
           (\<forall>a \<in> set (actions_of (view_State_Values (cb_View callback)) blockIdOptional).
              act_Value a \<noteq> [])"
  shows "ph_Handle (validateSubmissionHandler marshal) callback w = ((False, None, None), w)
       \<and> (\<exists>chain. map_of (flow_FollowUps (Register marshal filer client))
                     InteractionTypeViewSubmission = Some chain
            \<and> chain callback w = ph_Handle (processSubmissionHandler filer client) callback w)"
proof -
  have v: "ph_Handle (validateSubmissionHandler marshal) callback w = ((False, None, None), w)"
    using validate_body_valid[of callback marshal w] assms
    by (simp add: Handle_validate componentOther_def)
  have "MultiHandler [validateSubmissionHandler marshal, processSubmissionHandler filer client]
          callback w = MultiHandler [processSubmissionHandler filer client] callback w"
    using v by simp
  also have "\<dots> = ph_Handle (processSubmissionHandler filer client) callback w"
    by (rule MultiHandler_claimed_head) (rule Handle_process_claims)
  finally show ?thesis
    using v by (simp add: Register_submission_chain)
qed

theorem validate_passes_valid_submission_witness:
  "ph_Handle (validateSubmissionHandler example_marshal) (example_submission ''SNO'' [])
     empty_world = ((False, None, None), empty_world)
   \<and> ph_Handle (validateSubmissionHandler example_marshal) (example_submission ''Other'' ''Docs'')
     empty_world = ((False, None, None), empty_world)"
proof -
  have h1: "(\<forall>a \<in> set (actions_of (view_State_Values (cb_View (example_submission ''SNO'' [])))
                blockIdCategory). opt_Value (act_SelectedOption a) \<noteq> ''Other'') \<or>
           (\<forall>a \<in> set (actions_of (view_State_Values (cb_View (example_submission ''SNO'' [])))
                blockIdOptional). act_Value a \<noteq> [])"
    by (simp add: example_submission_def actions_of_def blockIdCategory_def select_action_def
        component_option_def)
  have h2: "(\<forall>a \<in> set (actions_of (view_State_Values (cb_View (example_submission ''Other'' ''Docs'')))
                blockIdCategory). opt_Value (act_SelectedOption a) \<noteq> ''Other'') \<or>
           (\<forall>a \<in> set (actions_of (view_State_Values (cb_View (example_submission ''Other'' ''Docs'')))
                blockIdOptional). act_Value a \<noteq> [])"
    by (simp add: example_submission_def actions_of_def blockIdOptional_def blockIdCategory_def
        text_action_def)
  show ?thesis
    using validate_passes_valid_submission[OF h1, of example_marshal empty_world]
      validate_passes_valid_submission[OF h2, of example_marshal empty_world]
    by simp
qed

text \<open>
  Claim C8. When the submission is invalid and marshalling the error response fails with \<open>err\<close>,
  the submission validator returns \<open>handled=true\<close> with a nil payload and \<open>err\<close>, after logging
  the failure. The view-submission chain returns exactly this result, and neither the tracker
  client nor the view updater has been called: no later handler ran.
\<close>

theorem validate_surfaces_marshaling_failure:
  assumes "\<exists>a \<in> set (actions_of (view_State_Values (cb_View callback)) blockIdCategory).
             opt_Value (act_SelectedOption a) = ''Other''"
    and "\<exists>a \<in> set (actions_of (view_State_Values (cb_View callback)) blockIdOptional).
             act_Value a = []"
    and "marshal invalid_response = Inl err"
  shows "ph_Handle (validateSubmissionHandler marshal) callback w =
           ((True, None, Some err),
            log_to ErrorLevel ''Failed to marshal view submission response.'' (Some err)
              (log_to DebugLevel ''Detected invalid submission.'' None w))
       \<and> (\<exists>chain. map_of (flow_FollowUps (Register marshal filer client))
                     InteractionTypeViewSubmission = Some chain
            \<and> chain callback w = ph_Handle (validateSubmissionHandler marshal) callback w
            \<and> tracker_calls (snd (chain callback w)) = tracker_calls w
            \<and> view_updates (snd (chain callback w)) = view_updates w)"
proof -
  have other: "\<exists>a \<in> set (actions_of (view_State_Values (cb_View callback)) blockIdCategory).
             opt_Value (act_SelectedOption a) = componentOther"
    using assms(1) by (simp add: componentOther_def)
  have v: "ph_Handle (validateSubmissionHandler marshal) callback w =
           ((True, None, Some err),
            log_to ErrorLevel ''Failed to marshal view submission response.'' (Some err)
              (log_to DebugLevel ''Detected invalid submission.'' None w))"
    using validate_body_invalid_Inl[where marshal = marshal and err = err, OF other assms(2,3)]
    by (simp add: Handle_validate)
  have c: "MultiHandler [validateSubmissionHandler marshal, processSubmissionHandler filer client]
             callback w = ph_Handle (validateSubmissionHandler marshal) callback w"
    using v by simp
  show ?thesis
    using v c by (simp add: Register_submission_chain log_to_def)
qed

theorem validate_surfaces_marshaling_failure_witness:
  "failing_marshal invalid_response = Inl (MarshalingFailure ''json: unsupported value'')
   \<and> ph_Handle (validateSubmissionHandler failing_marshal) (example_submission ''Other'' [])
     empty_world =
     ((True, None, Some (MarshalingFailure ''json: unsupported value'')),
      \<lparr>logs = [(DebugLevel, ''Detected invalid submission.'', None),
               (ErrorLevel, ''Failed to marshal view submission response.'',
                Some (MarshalingFailure ''json: unsupported value''))],
         tracker_calls = [], view_updates = [], filed = [], tasks = []\<rparr>)"
proof -
  have h1: "\<exists>a \<in> set (actions_of (view_State_Values (cb_View (example_submission ''Other'' [])))
                        blockIdCategory). opt_Value (act_SelectedOption a) = ''Other''"
    by (simp add: example_submission_def actions_of_def blockIdCategory_def select_action_def
        component_option_def)
  have h2: "\<exists>a \<in> set (actions_of (view_State_Values (cb_View (example_submission ''Other'' [])))
                        blockIdOptional). act_Value a = []"
    by (simp add: example_submission_def actions_of_def blockIdOptional_def text_action_def)
  have h3: "failing_marshal invalid_response = Inl (MarshalingFailure ''json: unsupported value'')"
    by (simp add: failing_marshal_def)
  show ?thesis
    using validate_surfaces_marshaling_failure[where marshal = failing_marshal
        and callback = "example_submission ''Other'' []" and w = empty_world, OF h1 h2 h3] h3
    by (simp add: log_to_def empty_world_def)
qed

section \<open>Properties of the issue template, the router and the registration\<close>

lemma Execute_bug_template:
  assumes "map_of data ''symptom'' = Some symptom"
    and "map_of data ''expected'' = Some expected"
    and "map_of data ''category_static_select'' = Some category"
    and "category = ''Other'' \<Longrightarrow> map_of data ''optional'' = Some qualifier"
  shows "Execute data (jp_Template issueParameters) =
     Inr (''h3. Symptomatic Behavior'' @ nl @ symptom @ nl @ nl @
          ''h3. Expected Behavior'' @ nl @ expected @ nl @ nl @
          ''h3. Category'' @ nl @
          (if category = ''Other'' then ''Other: '' @ qualifier else category))"
  using assms
  by (simp add: issueParameters_def blockIdSymptom_def blockIdExpected_def blockIdCategory_def
      blockIdOptional_def)

text \<open>
  Claim C5. For every field-value map that holds the symptom, the expected behaviour and the
  selected category (and the qualifier when the category is "Other"), executing the template of
  \<open>issueParameters\<close> succeeds, and the body is the three headed sections with the submitted
  symptom and expected texts verbatim in it; the category section, with which the body ends, is
  "Other: " followed by the qualifier's text when the selected category equals "Other", and the
  selected category itself otherwise.
\<close>

theorem bug_template_renders_fields:
  assumes "map_of data ''symptom'' = Some symptom"
    and "map_of data ''expected'' = Some expected"
    and "map_of data ''category_static_select'' = Some category"
    and "category = ''Other'' \<Longrightarrow> map_of data ''optional'' = Some qualifier"
  shows "\<exists>body. Execute data (jp_Template issueParameters) = Inr body
       \<and> body = ''h3. Symptomatic Behavior'' @ nl @ symptom @ nl @ nl @
                 ''h3. Expected Behavior'' @ nl @ expected @ nl @ nl @
                 ''h3. Category'' @ nl @
                 (if category = ''Other'' then ''Other: '' @ qualifier else category)
       \<and> sublist symptom body \<and> sublist expected body
       \<and> suffix (if category = ''Other'' then ''Other: '' @ qualifier else category) body"
proof -
  let ?cat = "if category = ''Other'' then ''Other: '' @ qualifier else category"
  let ?body = "''h3. Symptomatic Behavior'' @ nl @ symptom @ nl @ nl @
                 ''h3. Expected Behavior'' @ nl @ expected @ nl @ nl @
                 ''h3. Category'' @ nl @ ?cat"
  have e: "Execute data (jp_Template issueParameters) = Inr ?body"
    using assms by (rule Execute_bug_template)
  have s1: "sublist symptom ?body"
    unfolding sublist_def
    by (rule exI[of _ "''h3. Symptomatic Behavior'' @ nl"],
        rule exI[of _ "nl @ nl @ ''h3. Expected Behavior'' @ nl @ expected @ nl @ nl @
                 ''h3. Category'' @ nl @ ?cat"]) simp
  have s2: "sublist expected ?body"
    unfolding sublist_def
    by (rule exI[of _ "''h3. Symptomatic Behavior'' @ nl @ symptom @ nl @ nl @
                 ''h3. Expected Behavior'' @ nl"],
        rule exI[of _ "nl @ nl @ ''h3. Category'' @ nl @ ?cat"]) simp
  have s3: "suffix ?cat ?body"
    unfolding suffix_def
    by (rule exI[of _ "''h3. Symptomatic Behavior'' @ nl @ symptom @ nl @ nl @
                 ''h3. Expected Behavior'' @ nl @ expected @ nl @ nl @
                 ''h3. Category'' @ nl"]) simp
  show ?thesis using e s1 s2 s3 by blast
qed

theorem bug_template_renders_fields_witness:
  "Execute (fieldValues (example_submission ''Other'' ''Docs'') (jp_Fields issueParameters))
     (jp_Template issueParameters) =
     Inr (''h3. Symptomatic Behavior'' @ nl @ ''It hangs at 80%.'' @ nl @ nl @
          ''h3. Expected Behavior'' @ nl @ ''It completes.'' @ nl @ nl @
          ''h3. Category'' @ nl @ ''Other: Docs'')
   \<and> Execute (fieldValues (example_submission ''SNO'' []) (jp_Fields issueParameters))
     (jp_Template issueParameters) =
     Inr (''h3. Symptomatic Behavior'' @ nl @ ''It hangs at 80%.'' @ nl @ nl @
          ''h3. Expected Behavior'' @ nl @ ''It completes.'' @ nl @ nl @
          ''h3. Category'' @ nl @ ''SNO'')"
proof -
  have d1: "fieldValues (example_submission ''Other'' ''Docs'') (jp_Fields issueParameters) =
      [(''title'', ''Install hangs''), (''category_static_select'', ''Other''),
       (''optional'', ''Docs''), (''symptom'', ''It hangs at 80%.''),
       (''expected'', ''It completes.'')]"
    by (simp add: fieldValues_def example_submission_def issueParameters_def actions_of_def
        BlockIdTitle_def blockIdCategory_def blockIdOptional_def blockIdSymptom_def
        blockIdExpected_def text_action_def select_action_def component_option_def)
  have d2: "fieldValues (example_submission ''SNO'' []) (jp_Fields issueParameters) =
      [(''title'', ''Install hangs''), (''category_static_select'', ''SNO''),
       (''optional'', []), (''symptom'', ''It hangs at 80%.''),
       (''expected'', ''It completes.'')]"
    by (simp add: fieldValues_def example_submission_def issueParameters_def actions_of_def
        BlockIdTitle_def blockIdCategory_def blockIdOptional_def blockIdSymptom_def
        blockIdExpected_def text_action_def select_action_def component_option_def)
  show ?thesis
    using bug_template_renders_fields[where
        data = "fieldValues (example_submission ''Other'' ''Docs'') (jp_Fields issueParameters)"
        and symptom = "''It hangs at 80%.''" and expected = "''It completes.''"
        and category = "''Other''" and qualifier = "''Docs''"]
      bug_template_renders_fields[where
        data = "fieldValues (example_submission ''SNO'' []) (jp_Fields issueParameters)"
        and symptom = "''It hangs at 80%.''" and expected = "''It completes.''"
        and category = "''SNO''" and qualifier = "[]"]
    by (simp add: d1 d2)
qed

lemma Registry_Register_keys:
  "Registry_Register flow registry = Inr registry' \<Longrightarrow>
   fst ` set registry' = insert (flow_Identifier flow) (fst ` set registry)"
  by (auto simp: Registry_Register_def split: option.splits)

lemma register_all_keys:
  "register_all flows registry = Inr registry' \<Longrightarrow>
   fst ` set registry' = fst ` set registry \<union> flow_Identifier ` set flows"
proof (induction flows arbitrary: registry)
  case Nil
  then show ?case by simp
next
  case (Cons flow flows)
  then obtain r1 where r1: "Registry_Register flow registry = Inr r1"
    and rest: "register_all flows r1 = Inr registry'"
    by (auto split: sum.splits)
  from Cons.IH[OF rest] Registry_Register_keys[OF r1] show ?case by auto
qed

text \<open>
  Claim C7. When the flow identifier in the private metadata of a callback's view is not the
  identifier of any registered flow, \<open>Route\<close> claims the input and returns a \<open>RoutingMiss\<close>
  error naming that identifier: the miss is not dropped.
\<close>

theorem Route_unregistered_flow_is_a_miss:
  assumes "register_all flows [] = Inr registry"
    and "view_PrivateMetadata (cb_View callback) \<notin> flow_Identifier ` set flows"
  shows "Route registry callback w =
           ((True, None, Some (RoutingMiss (view_PrivateMetadata (cb_View callback)))), w)"
proof -
  have "view_PrivateMetadata (cb_View callback) \<notin> fst ` set registry"
    using register_all_keys[OF assms(1)] assms(2) by simp
  then have "map_of registry (view_PrivateMetadata (cb_View callback)) = None"
    by (simp add: map_of_eq_None_iff)
  then show ?thesis by (simp add: Route_def)
qed

theorem Route_unregistered_flow_is_a_miss_witness:
  "Route [(''bug'', Register example_marshal (recording_filer example_respond) recording_updater)]
     stale_submission empty_world =
     ((True, None, Some (RoutingMiss ''helpdesk'')), empty_world)"
proof -
  have r: "register_all [Register example_marshal (recording_filer example_respond) recording_updater] []
      = Inr [(''bug'', Register example_marshal (recording_filer example_respond) recording_updater)]"
    by (simp add: Registry_Register_def Register_def WithFollowUps_def ForView_def Identifier_def)
  have m: "view_PrivateMetadata (cb_View stale_submission) \<notin>
      flow_Identifier ` set [Register example_marshal (recording_filer example_respond) recording_updater]"
    by (simp add: stale_submission_def Register_def WithFollowUps_def ForView_def Identifier_def)
  show ?thesis
    using Route_unregistered_flow_is_a_miss[OF r m, of empty_world]
    by (simp add: stale_submission_def)
qed

text \<open>
  Claim C10. The private metadata of the view that \<open>View\<close> returns is exactly "bug", the
  identifier under which \<open>Register\<close> keys the flow and whose view is \<open>View\<close>; so in the registry
  holding that flow the lookup at the view's private metadata finds the flow, and routing any
  callback that carries this metadata goes to the flow's follow-up chains instead of missing.
\<close>

theorem View_metadata_is_the_registry_key:
  "mv_PrivateMetadata View = ''bug''
   \<and> mv_PrivateMetadata View = Identifier
   \<and> flow_Identifier (Register marshal filer client) = Identifier
   \<and> flow_View (Register marshal filer client) = View
   \<and> register_all [Register marshal filer client] [] =
       Inr [(Identifier, Register marshal filer client)]
   \<and> map_of [(Identifier, Register marshal filer client)] (mv_PrivateMetadata View) =
       Some (Register marshal filer client)
   \<and> Route [(Identifier, Register marshal filer client)]
       (callback\<lparr>cb_View := (cb_View callback)\<lparr>view_PrivateMetadata := mv_PrivateMetadata View\<rparr>\<rparr>) w =
       (case map_of (flow_FollowUps (Register marshal filer client)) (cb_Type callback) of
          None \<Rightarrow> ((False, None, None), w)
        | Some chain \<Rightarrow>
            chain (callback\<lparr>cb_View := (cb_View callback)\<lparr>view_PrivateMetadata :=
                     mv_PrivateMetadata View\<rparr>\<rparr>) w)"
  by (simp add: View_def Identifier_def Register_def WithFollowUps_def ForView_def
      Registry_Register_def Route_def)

theorem View_metadata_is_the_registry_key_witness:
  "mv_PrivateMetadata View = ''bug''
   \<and> view_PrivateMetadata (cb_View (example_submission ''SNO'' [])) = mv_PrivateMetadata View
   \<and> flow_Identifier (Register example_marshal (recording_filer example_respond) recording_updater) =
       mv_PrivateMetadata View"
proof -
  have k: "mv_PrivateMetadata View = ''bug'' \<and> mv_PrivateMetadata View = Identifier \<and>
      flow_Identifier (Register example_marshal (recording_filer example_respond) recording_updater) =
        Identifier"
    using View_metadata_is_the_registry_key[of example_marshal "recording_filer example_respond"
      recording_updater "example_submission ''SNO'' []" empty_world]
    by blast
  have e: "view_PrivateMetadata (cb_View (example_submission ''SNO'' [])) = ''bug''"
    by (simp add: example_submission_def)
  from k e show ?thesis by metis
qed

section \<open>Properties of the dispatch loop\<close>

text \<open>
  Claim C9. When the data of an events-API or interactive envelope fails the type assertion, or
  the interaction handler returns an error, the loop only logs (after the handler call, in the
  last case), makes no call of \<open>Ack\<close> for the envelope, and goes on with the next one.
\<close>

theorem failed_envelopes_are_not_acknowledged:
  "(ev_Type event = EventTypeEventsAPI \<and> (\<forall>e. ev_Data event \<noteq> DataEventsAPIEvent e) \<longrightarrow>
      on_event eventsHandle interactionsHandle event s =
        Inr (call (Printf (''Could not type cast the event to the EventsAPIEvent: %v'' @ nl)) s))
   \<and> (ev_Type event = EventTypeInteractive \<and> (\<forall>c. ev_Data event \<noteq> DataInteractionCallback c) \<longrightarrow>
      on_event eventsHandle interactionsHandle event s =
        Inr (call (Printf (''Could not type cast the event to the InteractionCallback: %v'' @ nl)) s))
   \<and> (ev_Type event = EventTypeInteractive \<and> ev_Data event = DataInteractionCallback callback \<and>
        interactionsHandle callback (world s) = ((payload, Some err), w') \<longrightarrow>
      on_event eventsHandle interactionsHandle event s =
        Inr (call (Printf (''error building payload: %v'' @ nl))
               ((call (InteractionsHandle callback) s)\<lparr>world := w'\<rparr>)))
   \<and> ((ev_Type event = EventTypeEventsAPI \<and> (\<forall>e. ev_Data event \<noteq> DataEventsAPIEvent e)) \<or>
       (ev_Type event = EventTypeInteractive \<and> (\<forall>c. ev_Data event \<noteq> DataInteractionCallback c)) \<or>
       (ev_Type event = EventTypeInteractive \<and> ev_Data event = DataInteractionCallback callback \<and>
        interactionsHandle callback (world s) = ((payload, Some err), w')) \<longrightarrow>
      (\<exists>s'. on_event eventsHandle interactionsHandle event s = Inr s'
         \<and> filter is_Ack (calls s') = filter is_Ack (calls s)
         \<and> listener eventsHandle interactionsHandle (Received event # rest) s =
             listener eventsHandle interactionsHandle rest s'))"
proof -
  have a: "on_event eventsHandle interactionsHandle event s =
        Inr (call (Printf (''Could not type cast the event to the EventsAPIEvent: %v'' @ nl)) s)"
    if "ev_Type event = EventTypeEventsAPI" "\<forall>e. ev_Data event \<noteq> DataEventsAPIEvent e"
    using that by (cases "ev_Data event") (simp_all add: on_event_def)
  have b: "on_event eventsHandle interactionsHandle event s =
        Inr (call (Printf (''Could not type cast the event to the InteractionCallback: %v'' @ nl)) s)"
    if "ev_Type event = EventTypeInteractive" "\<forall>c. ev_Data event \<noteq> DataInteractionCallback c"
    using that by (cases "ev_Data event") (simp_all add: on_event_def)
  have c: "on_event eventsHandle interactionsHandle event s =
        Inr (call (Printf (''error building payload: %v'' @ nl))
               ((call (InteractionsHandle callback) s)\<lparr>world := w'\<rparr>))"
    if "ev_Type event = EventTypeInteractive" "ev_Data event = DataInteractionCallback callback"
      "interactionsHandle callback (world s) = ((payload, Some err), w')"
    using that by (simp add: on_event_def Let_def call_def)
  show ?thesis
    using a b c by (auto simp: call_def)
qed

theorem failed_envelopes_are_not_acknowledged_witness:
  "on_event counting_events erring mistyped_event idle =
     Inr \<lparr>calls = [Printf (''Could not type cast the event to the EventsAPIEvent: %v'' @ nl)],
          world = 0\<rparr>
   \<and> on_event counting_events erring interactive_event idle =
     Inr \<lparr>calls = [InteractionsHandle (example_submission ''SNO'' []),
                   Printf (''error building payload: %v'' @ nl)],
          world = 1\<rparr>"
proof -
  have m: "ev_Type mistyped_event = EventTypeEventsAPI \<and>
           (\<forall>e. ev_Data mistyped_event \<noteq> DataEventsAPIEvent e)"
    by (simp add: mistyped_event_def)
  have i: "ev_Type interactive_event = EventTypeInteractive \<and>
           ev_Data interactive_event = DataInteractionCallback (example_submission ''SNO'' []) \<and>
           erring (example_submission ''SNO'' []) (world idle) =
             ((None, Some (MarshalingFailure ''json: unsupported value'')), 1)"
    by (simp add: interactive_event_def erring_def idle_def)
  show ?thesis
    using m i
      failed_envelopes_are_not_acknowledged[where event = mistyped_event and s = idle
        and eventsHandle = counting_events and interactionsHandle = erring]
      failed_envelopes_are_not_acknowledged[where event = interactive_event and s = idle
        and eventsHandle = counting_events and interactionsHandle = erring
        and callback = "example_submission ''SNO'' []" and payload = None
        and err = "MarshalingFailure ''json: unsupported value''" and w' = 1]
    by (simp add: call_def idle_def)
qed

lemma on_event_Ack_only:
  assumes "on_event eventsHandle interactionsHandle event s = Inr s'"
    and "filter is_Ack (calls s') \<noteq> filter is_Ack (calls s)"
  shows "(ev_Type event = EventTypeEventsAPI \<and> (\<exists>e. ev_Data event = DataEventsAPIEvent e) \<and>
            ev_Request event \<noteq> None) \<or>
         (ev_Type event = EventTypeInteractive \<and>
            (\<exists>c. ev_Data event = DataInteractionCallback c \<and>
                 snd (fst (interactionsHandle c (world s))) = None) \<and>
            ev_Request event \<noteq> None)"
proof (cases "ev_Type event")
  case EventTypeEventsAPI
  then show ?thesis
    using assms
    by (cases "ev_Data event"; cases "ev_Request event") (auto simp: on_event_def call_def Let_def)
next
  case EventTypeInteractive
  show ?thesis
  proof (cases "ev_Data event")
    case (DataInteractionCallback c)
    obtain p e w1 where h: "interactionsHandle c (world s) = ((p, e), w1)"
      by (metis surj_pair)
    show ?thesis
      using assms EventTypeInteractive DataInteractionCallback h
      by (cases e; cases "ev_Request event") (auto simp: on_event_def call_def Let_def)
  qed (use assms EventTypeInteractive in \<open>auto simp: on_event_def call_def Let_def\<close>)
next
  case (EventTypeOther x)
  then show ?thesis using assms by (auto simp: on_event_def)
qed

text \<open>
  Claim C6, as stated, fails: for an interactive envelope the loop calls the interaction handler
  first and acknowledges afterwards, and an envelope whose data fails the type assertion is not
  acknowledged at all.
\<close>

theorem acknowledgment_first_counterexample:
  "on_event counting_events answering interactive_event idle =
     Inr \<lparr>calls = [InteractionsHandle (example_submission ''SNO'' []),
                   Ack ''envelope-1'' [Some ''{}'']],
          world = 1\<rparr>
   \<and> \<not> ack_comes_first [InteractionsHandle (example_submission ''SNO'' []) :: unit Call,
                         Ack ''envelope-1'' [Some ''{}'']]
   \<and> on_event counting_events answering mistyped_event idle =
     Inr \<lparr>calls = [Printf (''Could not type cast the event to the EventsAPIEvent: %v'' @ nl)],
          world = 0\<rparr>
   \<and> filter is_Ack
        [Printf (''Could not type cast the event to the EventsAPIEvent: %v'' @ nl) :: unit Call] = []"
  by (simp add: on_event_def interactive_event_def mistyped_event_def idle_def answering_def
      call_def)

text \<open>
  Claim C6, amended. An events-API envelope whose data is an events-API event is acknowledged
  first, without payload, and routed to the event handler afterwards. An interactive envelope
  whose data is an interaction callback is routed to the interaction handler first and
  acknowledged afterwards, with the payload the handler returned, when the handler returned no
  error. The loop acknowledges no other envelope.
\<close>

theorem acknowledgment_order:
  "(ev_Type event = EventTypeEventsAPI \<and> ev_Data event = DataEventsAPIEvent eventData \<and>
      ev_Request event = Some request \<longrightarrow>
      on_event eventsHandle interactionsHandle event s =
        Inr \<lparr>calls = calls s @ [Ack request [], EventsHandle eventData],
             world = eventsHandle eventData (world s)\<rparr>)
   \<and> (ev_Type event = EventTypeInteractive \<and> ev_Data event = DataInteractionCallback callback \<and>
      ev_Request event = Some request \<and>
      interactionsHandle callback (world s) = ((payload, None), w') \<longrightarrow>
      on_event eventsHandle interactionsHandle event s =
        Inr \<lparr>calls = calls s @ [InteractionsHandle callback, Ack request [payload]],
             world = w'\<rparr>)
   \<and> (on_event eventsHandle interactionsHandle event s = Inr s' \<and>
      filter is_Ack (calls s') \<noteq> filter is_Ack (calls s) \<longrightarrow>
      (ev_Type event = EventTypeEventsAPI \<and> (\<exists>e. ev_Data event = DataEventsAPIEvent e) \<and>
         ev_Request event \<noteq> None) \<or>
      (ev_Type event = EventTypeInteractive \<and>
         (\<exists>c. ev_Data event = DataInteractionCallback c \<and>
              snd (fst (interactionsHandle c (world s))) = None) \<and>
         ev_Request event \<noteq> None))"
proof (intro conjI impI)
  assume "ev_Type event = EventTypeEventsAPI \<and> ev_Data event = DataEventsAPIEvent eventData \<and>
      ev_Request event = Some request"
  then show "on_event eventsHandle interactionsHandle event s =
        Inr \<lparr>calls = calls s @ [Ack request [], EventsHandle eventData],
             world = eventsHandle eventData (world s)\<rparr>"
    by (simp add: on_event_def Let_def call_def)
next
  assume "ev_Type event = EventTypeInteractive \<and> ev_Data event = DataInteractionCallback callback \<and>
      ev_Request event = Some request \<and>
      interactionsHandle callback (world s) = ((payload, None), w')"
  then show "on_event eventsHandle interactionsHandle event s =
        Inr \<lparr>calls = calls s @ [InteractionsHandle callback, Ack request [payload]],
             world = w'\<rparr>"
    by (simp add: on_event_def Let_def call_def)
next
  assume "on_event eventsHandle interactionsHandle event s = Inr s' \<and>
      filter is_Ack (calls s') \<noteq> filter is_Ack (calls s)"
  then show "(ev_Type event = EventTypeEventsAPI \<and> (\<exists>e. ev_Data event = DataEventsAPIEvent e) \<and>
         ev_Request event \<noteq> None) \<or>
      (ev_Type event = EventTypeInteractive \<and>
         (\<exists>c. ev_Data event = DataInteractionCallback c \<and>
              snd (fst (interactionsHandle c (world s))) = None) \<and>
         ev_Request event \<noteq> None)"
    using on_event_Ack_only[of eventsHandle interactionsHandle event s s'] by blast
qed

theorem acknowledgment_order_witness:
  "on_event counting_events answering events_api_event idle =
     Inr \<lparr>calls = [Ack ''envelope-3'' [], EventsHandle ()], world = 1\<rparr>
   \<and> on_event counting_events answering interactive_event idle =
     Inr \<lparr>calls = [InteractionsHandle (example_submission ''SNO'' []),
                   Ack ''envelope-1'' [Some ''{}'']],
          world = 1\<rparr>"
proof -
  have e: "ev_Type events_api_event = EventTypeEventsAPI \<and>
           ev_Data events_api_event = DataEventsAPIEvent () \<and>
           ev_Request events_api_event = Some ''envelope-3''"
    by (simp add: events_api_event_def)
  have i: "ev_Type interactive_event = EventTypeInteractive \<and>
           ev_Data interactive_event = DataInteractionCallback (example_submission ''SNO'' []) \<and>
           ev_Request interactive_event = Some ''envelope-1'' \<and>
           answering (example_submission ''SNO'' []) (world idle) = ((Some ''{}'', None), 1)"
    by (simp add: interactive_event_def answering_def idle_def)
  show ?thesis
    using e i
      acknowledgment_order[where event = events_api_event and s = idle
        and eventsHandle = counting_events and interactionsHandle = answering
        and eventData = "()" and request = "''envelope-3''"]
      acknowledgment_order[where event = interactive_event and s = idle
        and eventsHandle = counting_events and interactionsHandle = answering
        and callback = "example_submission ''SNO'' []" and request = "''envelope-1''"
        and payload = "Some ''{}''" and w' = 1]
    by (simp add: idle_def counting_events_def)
qed

section \<open>Redelivered submissions\<close>













end
